theory Spec2Isabelle
  imports Complex_Main "HOL-Library.Word"
begin

section \<open>The V-trace estimator\<close>

text \<open>
  Modelled from the spec: \<^verbatim>\<open>vtrace\<close>, which the agent of \<^verbatim>\<open>agent.py\<close> imports from
  \<^verbatim>\<open>lagom.metric\<close>, a module of the repository that is not among the source files.
  Every definition of this section is written from section 4.1 of the specification,
  step by step, with the specification's notation:
  \<open>mu_logp\<close> and \<open>pi_logp\<close> are the behaviour and target log-probabilities, \<open>rew\<close> the
  rewards, \<open>val\<close> the value estimates \<open>V[0..T-1]\<close>, \<open>val_last\<close> the bootstrap value,
  \<open>dones\<close> the termination flags, \<open>rho_bar\<close> and \<open>c_bar\<close> the two clip thresholds.
  Floating-point tensors are lists of real numbers: rounding is not modelled.
\<close>

datatype error =
    ShapeError        \<comment> \<open>the estimator's fail-fast error for mismatched lengths\<close>
  | RuntimeError      \<comment> \<open>torch: \<^verbatim>\<open>cat\<close> of no tensors, a \<^verbatim>\<open>split\<close> that does not fit\<close>
  | ValueError        \<comment> \<open>numpy: \<^verbatim>\<open>concatenate\<close> of no arrays\<close>
  | IndexError        \<comment> \<open>\<^verbatim>\<open>[-1]\<close> on an empty list\<close>
  | AttributeError    \<comment> \<open>an attribute that was never assigned\<close>
  | AssertionError    \<comment> \<open>the \<^verbatim>\<open>assert\<close> of \<^verbatim>\<open>learn\<close>\<close>

record vtrace_input =
  mu_logp :: "real list"
  pi_logp :: "real list"
  discount :: real
  rew :: "real list"
  val :: "real list"
  val_last :: real
  dones :: "bool list"
  rho_bar :: real
  c_bar :: real

definition horizon :: "vtrace_input \<Rightarrow> nat" where
  "horizon I = length (rew I)"

text \<open>Step 1: \<open>ratio[t] = exp(pi_logp[t] - mu_logp[t])\<close>.\<close>

definition ratio :: "vtrace_input \<Rightarrow> nat \<Rightarrow> real" where
  "ratio I t = exp (pi_logp I ! t - mu_logp I ! t)"

text \<open>Steps 2 and 3: the two clipped weights.\<close>

definition rho :: "vtrace_input \<Rightarrow> nat \<Rightarrow> real" where
  "rho I t = min (ratio I t) (rho_bar I)"

definition cw :: "vtrace_input \<Rightarrow> nat \<Rightarrow> real" where
  "cw I t = min (ratio I t) (c_bar I)"

text \<open>The factor \<open>1 - done[t]\<close>, with the flag read as 0 or 1.\<close>

definition cont :: "vtrace_input \<Rightarrow> nat \<Rightarrow> real" where
  "cont I t = (if dones I ! t then 0 else 1)"

text \<open>Step 4: \<open>V_next[t] = V[t+1]\<close> for \<open>t < T-1\<close> and \<open>V_next[T-1] = V_last\<close>.\<close>

definition V_next :: "vtrace_input \<Rightarrow> nat \<Rightarrow> real" where
  "V_next I t = (if t + 1 < horizon I then val I ! (t + 1) else val_last I)"

text \<open>Step 5: the temporal-difference error.\<close>

definition delta :: "vtrace_input \<Rightarrow> nat \<Rightarrow> real" where
  "delta I t = rho I t * (rew I ! t + discount I * V_next I t * cont I t - val I ! t)"

text \<open>
  Step 6: the value target, computed backward from \<open>t = T-1\<close>, with \<open>vtarget[T]\<close>
  treated as \<open>V_last\<close>.
\<close>

function vtarget :: "vtrace_input \<Rightarrow> nat \<Rightarrow> real" where
  "vtarget I t =
     (if horizon I \<le> t then val_last I
      else val I ! t + delta I t
           + discount I * cw I t * cont I t * (vtarget I (t + 1) - V_next I t))"
  by pat_completeness auto
termination
  by (relation "measure (\<lambda>(I, t). horizon I - t)") auto

declare vtarget.simps [simp del]

text \<open>Step 7: the advantage, weighted by the policy-gradient clip \<open>c[t]\<close>.\<close>

definition advantage :: "vtrace_input \<Rightarrow> nat \<Rightarrow> real" where
  "advantage I t =
     cw I t * (rew I ! t + discount I * cont I t * vtarget I (t + 1) - val I ! t)"

text \<open>Malformed shapes fail fast; a well-formed input has five sequences of one length.\<close>

definition well_formed :: "vtrace_input \<Rightarrow> bool" where
  "well_formed I =
     (length (mu_logp I) = horizon I \<and> length (pi_logp I) = horizon I
      \<and> length (val I) = horizon I \<and> length (dones I) = horizon I)"

definition vtrace_of :: "vtrace_input \<Rightarrow> error + real list \<times> real list" where
  "vtrace_of I =
     (if well_formed I
      then Inr (map (vtarget I) [0..<horizon I], map (advantage I) [0..<horizon I])
      else Inl ShapeError)"

text \<open>
  The call of \<^verbatim>\<open>Agent.learn\<close>, with its argument order:
  \<^verbatim>\<open>vtrace(behavior_logprob, logprob, gamma, rewards, V, last_V, reach_terminal,
  clip_rho, clip_pg_rho)\<close>.
\<close>

definition vtrace ::
  "real list \<Rightarrow> real list \<Rightarrow> real \<Rightarrow> real list \<Rightarrow> real list \<Rightarrow> real \<Rightarrow> bool list
   \<Rightarrow> real \<Rightarrow> real \<Rightarrow> error + real list \<times> real list" where
  "vtrace behavior_logprobs target_logprobs g Rs Vs last_V reach_terminal clip_r clip_pg =
     vtrace_of \<lparr>mu_logp = behavior_logprobs, pi_logp = target_logprobs, discount = g,
                rew = Rs, val = Vs, val_last = last_V, dones = reach_terminal,
                rho_bar = clip_r, c_bar = clip_pg\<rparr>"

text \<open>
  Two notions used to state properties of the estimator. The standard n-step bootstrapped
  return: \<open>G[t] = r[t] + gamma * (1 - done[t]) * G[t+1]\<close>, seeded with the bootstrap
  value after the last step.
\<close>

function bootstrapped_return :: "real \<Rightarrow> real list \<Rightarrow> bool list \<Rightarrow> real \<Rightarrow> nat \<Rightarrow> real" where
  "bootstrapped_return g rs ds v_last t =
     (if length rs \<le> t then v_last
      else rs ! t + g * (if ds ! t then 0 else 1) * bootstrapped_return g rs ds v_last (t + 1))"
  by pat_completeness auto
termination
  by (relation "measure (\<lambda>(g, rs, ds, v, t). length rs - t)") auto

declare bootstrapped_return.simps [simp del]

text \<open>Zeroing a sequence after index \<open>t\<close>, and an input after index \<open>t\<close>.\<close>

definition zero_after :: "nat \<Rightarrow> real list \<Rightarrow> real list" where
  "zero_after t xs = take (Suc t) xs @ replicate (length xs - Suc t) 0"

definition zeroed_after :: "nat \<Rightarrow> vtrace_input \<Rightarrow> vtrace_input" where
  "zeroed_after t I =
     I\<lparr>mu_logp := zero_after t (mu_logp I), pi_logp := zero_after t (pi_logp I),
       rew := zero_after t (rew I), val := zero_after t (val I), val_last := 0\<rparr>"

section \<open>Tensors\<close>

text \<open>
  A tensor entry is a real number or NaN. NaN is what torch returns for \<open>0/0\<close>: the
  mean of no entries and the (unbiased) standard deviation of fewer than two entries.
  The operations propagate NaN. A nonzero number divided by zero is an infinity in
  floating-point arithmetic, which this type does not have: \<open>fdiv\<close> gives NaN there
  too, and the development shows that no division of the agent has a zero divisor
  except \<open>0/0\<close>.
\<close>

datatype fl = NaN | Fin real

fun fneg :: "fl \<Rightarrow> fl" where
  "fneg (Fin x) = Fin (- x)"
| "fneg NaN = NaN"

fun fadd :: "fl \<Rightarrow> fl \<Rightarrow> fl" where
  "fadd (Fin x) (Fin y) = Fin (x + y)"
| "fadd _ _ = NaN"

fun fsub :: "fl \<Rightarrow> fl \<Rightarrow> fl" where
  "fsub (Fin x) (Fin y) = Fin (x - y)"
| "fsub _ _ = NaN"

fun fmul :: "fl \<Rightarrow> fl \<Rightarrow> fl" where
  "fmul (Fin x) (Fin y) = Fin (x * y)"
| "fmul _ _ = NaN"

fun fdiv :: "fl \<Rightarrow> fl \<Rightarrow> fl" where
  "fdiv (Fin x) (Fin y) = (if y = 0 then NaN else Fin (x / y))"
| "fdiv _ _ = NaN"

fun fsqrt :: "fl \<Rightarrow> fl" where
  "fsqrt (Fin x) = (if x < 0 then NaN else Fin (sqrt x))"
| "fsqrt NaN = NaN"

definition fsum :: "fl list \<Rightarrow> fl" where
  "fsum xs = foldr fadd xs (Fin 0)"

text \<open>\<^verbatim>\<open>x.mean()\<close>: the sum over the number of entries, NaN for no entries.\<close>

definition mean :: "fl list \<Rightarrow> fl" where
  "mean xs = fdiv (fsum xs) (Fin (real (length xs)))"

text \<open>
  \<^verbatim>\<open>x.std()\<close>: torch's default is the unbiased estimator, the squared deviations
  summed and divided by \<open>max(0, N - 1)\<close>.
\<close>

definition std :: "fl list \<Rightarrow> fl" where
  "std xs =
     fsqrt (fdiv (fsum (map (\<lambda>x. fmul (fsub x (mean xs)) (fsub x (mean xs))) xs))
                 (Fin (real (length xs - 1))))"

text \<open>
  \<^verbatim>\<open>x.squeeze()\<close> drops every dimension of size 1, so one row becomes a
  0-dimensional tensor; \<^verbatim>\<open>x.split(sizes)\<close> needs one dimension at least and sizes
  that sum to the length.
\<close>

datatype tensor = T0 real | T1 "real list"

definition squeeze :: "real list \<Rightarrow> tensor" where
  "squeeze xs = (case xs of [x] \<Rightarrow> T0 x | _ \<Rightarrow> T1 xs)"

fun ndimension :: "tensor \<Rightarrow> nat" where
  "ndimension (T0 x) = 0"
| "ndimension (T1 xs) = 1"

fun entries :: "tensor \<Rightarrow> real list" where
  "entries (T0 x) = [x]"
| "entries (T1 xs) = xs"

fun chunks :: "'a list \<Rightarrow> nat list \<Rightarrow> 'a list list" where
  "chunks xs [] = []"
| "chunks xs (n # ns) = take n xs # chunks (drop n xs) ns"

fun split :: "tensor \<Rightarrow> nat list \<Rightarrow> error + real list list" where
  "split (T0 x) sizes = Inl RuntimeError"
| "split (T1 xs) sizes =
     (if sum_list sizes = length xs then Inr (chunks xs sizes) else Inl RuntimeError)"

text \<open>\<^verbatim>\<open>np.concatenate\<close> raises on an empty sequence of arrays.\<close>

definition concatenate :: "'a list list \<Rightarrow> error + 'a list" where
  "concatenate xss = (if xss = [] then Inl ValueError else Inr (concat xss))"

section \<open>The agent\<close>

text \<open>
  The configuration is a dictionary; the record has the keys the agent reads, so that
  \<^verbatim>\<open>config['agent.lr']\<close> is \<open>agent_lr\<close>.
\<close>

record config =
  nn_sizes :: "nat list"
  agent_std0 :: real
  agent_lr :: real
  agent_use_lr_scheduler :: bool
  train_timestep :: nat
  agent_gamma :: real
  agent_clip_rho :: real
  agent_clip_pg_rho :: real
  agent_standardize_adv :: bool
  agent_value_coef :: real
  agent_entropy_coef :: real
  agent_max_grad_norm :: real

text \<open>
  The spaces of gym: \<open>Discrete n\<close>, \<open>Box\<close> with its shape, and the other classes
  (Tuple, Dict, MultiBinary, MultiDiscrete), kept with their flat dimension.
\<close>

datatype space = Discrete nat | Box "nat list" | OtherSpace nat

fun flatdim :: "space \<Rightarrow> nat" where
  "flatdim (Discrete n) = n"
| "flatdim (Box shape) = prod_list shape"
| "flatdim (OtherSpace d) = d"

text \<open>
  An environment is a stack of wrappers around an unwrapped environment. Each object of
  the stack has a class name and its two spaces; \<open>moments\<close> holds the attributes
  \<^verbatim>\<open>mean\<close> and \<^verbatim>\<open>var\<close> when the object has them.
\<close>

record layer =
  class_name :: string
  observation_space :: space
  action_space :: space
  moments :: "(real list \<times> real list) option"

datatype env = Base layer | Wrapper layer env

fun top :: "env \<Rightarrow> layer" where
  "top (Base l) = l"
| "top (Wrapper l e) = l"

fun layers :: "env \<Rightarrow> layer list" where
  "layers (Base l) = [l]"
| "layers (Wrapper l e) = l # layers e"

datatype head = CategoricalHead nat nat | DiagGaussianHead nat nat real

datatype mlp = MLP nat "nat list"

datatype scheduler = LinearLrScheduler nat real

record agent =
  config :: config
  env :: env
  feature_network :: mlp
  action_head :: "head option"
  total_timestep :: "64 word"
  lr_scheduler :: "scheduler option"
  gamma :: real
  clip_rho :: real
  clip_pg_rho :: real

text \<open>
  \<^verbatim>\<open>Agent.__init__\<close>. An attribute that is not assigned is \<open>None\<close> here, and reading it
  raises. The counter is the buffer \<^verbatim>\<open>torch.tensor(0)\<close>, a 64-bit integer tensor.
\<close>

definition Agent_init :: "config \<Rightarrow> env \<Rightarrow> error + agent" where
  "Agent_init cfg e =
     (if nn_sizes cfg = [] then Inl IndexError
      else
        let feature_dim = last (nn_sizes cfg) in
        Inr \<lparr>config = cfg, env = e,
             feature_network = MLP (flatdim (observation_space (top e))) (nn_sizes cfg),
             action_head =
               (case action_space (top e) of
                   Discrete n \<Rightarrow> Some (CategoricalHead feature_dim n)
                 | Box shape \<Rightarrow>
                     Some (DiagGaussianHead feature_dim (flatdim (Box shape)) (agent_std0 cfg))
                 | OtherSpace d \<Rightarrow> None),
             total_timestep = 0,
             lr_scheduler =
               (if agent_use_lr_scheduler cfg
                then Some (LinearLrScheduler (train_timestep cfg) (1 / 10 ^ 8)) else None),
             gamma = agent_gamma cfg, clip_rho = agent_clip_rho cfg,
             clip_pg_rho = agent_clip_pg_rho cfg\<rparr>)"

text \<open>
  The networks are collaborators. What a forward pass returns is an argument of the
  model: for the row \<open>i\<close> of a batch and its observation, the policy head with its
  sampler gives the sampled action, its log-probability and the entropy, and the value
  head gives \<^verbatim>\<open>V_head(feature_network(obs))\<close>.
\<close>

type_synonym obs = "real list"

record network =
  policy_row :: "nat \<Rightarrow> obs \<Rightarrow> real list \<times> real \<times> real"
  value_row :: "obs \<Rightarrow> real"

record out_row =
  out_action :: "real list"
  out_action_logprob :: real
  out_entropy :: real
  out_V :: real

definition make_row :: "network \<Rightarrow> nat \<times> obs \<Rightarrow> out_row" where
  "make_row net io =
     (case policy_row net (fst io) (snd io) of
        (action, logprob, entropy) \<Rightarrow>
          \<lparr>out_action = action, out_action_logprob = logprob, out_entropy = entropy,
           out_V = value_row net (snd io)\<rparr>)"

text \<open>\<^verbatim>\<open>Agent.choose_action\<close>: the features first, then \<^verbatim>\<open>self.action_head\<close>.\<close>

definition choose_action :: "agent \<Rightarrow> network \<Rightarrow> obs list \<Rightarrow> error + out_row list" where
  "choose_action a net observation =
     (case action_head a of
        None \<Rightarrow> Inl AttributeError
      | Some h \<Rightarrow> Inr (map (make_row net) (enumerate 0 observation)))"

section \<open>Learning\<close>

text \<open>
  Modelled from the spec: the class of trajectories, which is missing. The record has what
  \<^verbatim>\<open>learn\<close> reads of a trajectory, after the data model of the specification:
  \<open>T+1\<close> observations, and \<open>T\<close> behaviour log-probabilities (the
  \<^verbatim>\<open>action_logprob\<close> entries of the step infos), rewards and termination flags.
\<close>

record trajectory =
  observations :: "obs list"
  infos_action_logprob :: "real list"
  rewards :: "real list"
  reach_terminal :: "bool list"

text \<open>
  Modelled from the spec: \<^verbatim>\<open>len(traj)\<close> (the method \<^verbatim>\<open>Trajectory.__len__\<close> is
  missing) is the length \<open>T\<close> of the trajectory, its number of rewards.
\<close>

definition len_traj :: "trajectory \<Rightarrow> nat" where
  "len_traj traj = length (rewards traj)"

text \<open>Line 92: \<^verbatim>\<open>torch.cat\<close> raises on an empty list of tensors.\<close>

definition behavior_logprobs_of :: "trajectory list \<Rightarrow> error + real list list" where
  "behavior_logprobs_of D =
     (if list_ex (\<lambda>traj. infos_action_logprob traj = []) D then Inl RuntimeError
      else Inr (map infos_action_logprob D))"

text \<open>
  Line 93: the observations of every trajectory but its last one, concatenated. A
  trajectory holds one observation at least; reading an empty one raises.
\<close>

definition batch_observations :: "trajectory list \<Rightarrow> error + obs list" where
  "batch_observations D =
     (if list_ex (\<lambda>traj. observations traj = []) D then Inl IndexError
      else concatenate (map (\<lambda>traj. butlast (observations traj)) D))"

text \<open>Lines 101 to 107: one call of the estimator for each trajectory, in order.\<close>

fun vtrace_loop ::
  "agent \<Rightarrow> (trajectory \<times> real list \<times> real list \<times> real list \<times> real) list
   \<Rightarrow> error + real list list \<times> real list list" where
  "vtrace_loop a [] = Inr ([], [])"
| "vtrace_loop a ((traj, behavior_logprob, logprob, V, last_V) # rest) =
     (case vtrace behavior_logprob logprob (gamma a) (rewards traj) V last_V
             (reach_terminal traj) (clip_rho a) (clip_pg_rho a) of
        Inl e \<Rightarrow> Inl e
      | Inr (v, A) \<Rightarrow>
          (case vtrace_loop a rest of
             Inl e \<Rightarrow> Inl e
           | Inr (vs, As) \<Rightarrow> Inr (v # vs, A # As)))"

text \<open>Line 112: \<^verbatim>\<open>(As - As.mean())/(As.std() + 1e-8)\<close>.\<close>

definition adv_divisor :: "fl list \<Rightarrow> fl" where
  "adv_divisor As = fadd (std As) (Fin (1 / 10 ^ 8))"

definition standardize :: "fl list \<Rightarrow> fl list" where
  "standardize As = map (\<lambda>A. fdiv (fsub A (mean As)) (adv_divisor As)) As"

text \<open>The tensors of a batch, as they stand after the assertion of line 114.\<close>

record batch =
  b_logprobs :: "real list"
  b_entropies :: "real list"
  b_Vs :: "real list"
  b_vs :: "real list"
  b_As :: "fl list"

text \<open>
  Lines 91 to 110: the forward passes, the split of their results by trajectory, the
  estimator on each trajectory, and the concatenation of its value targets and
  advantages. The result is the tensors \<^verbatim>\<open>logprobs\<close>, \<^verbatim>\<open>entropies\<close>, \<^verbatim>\<open>Vs\<close>,
  \<^verbatim>\<open>vs\<close> and \<^verbatim>\<open>As\<close> as they stand before line 111.
\<close>

definition estimates ::
  "agent \<Rightarrow> network \<Rightarrow> trajectory list
   \<Rightarrow> error + tensor \<times> tensor \<times> tensor \<times> real list \<times> real list" where
  "estimates a net D =
     (let Ts = map len_traj D in
      case behavior_logprobs_of D of Inl e \<Rightarrow> Inl e | Inr behavior_logprobs \<Rightarrow>
      case batch_observations D of Inl e \<Rightarrow> Inl e | Inr observation \<Rightarrow>
      case choose_action a net observation of Inl e \<Rightarrow> Inl e | Inr out_agent \<Rightarrow>
      let logprobs = squeeze (map out_action_logprob out_agent);
          entropies = squeeze (map out_entropy out_agent);
          Vs = squeeze (map out_V out_agent);
          last_Vs = map (\<lambda>traj. value_row net (last (observations traj))) D in
      case split logprobs Ts of Inl e \<Rightarrow> Inl e | Inr logprob_parts \<Rightarrow>
      case split Vs Ts of Inl e \<Rightarrow> Inl e | Inr V_parts \<Rightarrow>
      case vtrace_loop a (zip D (zip behavior_logprobs (zip logprob_parts (zip V_parts last_Vs))))
        of Inl e \<Rightarrow> Inl e | Inr (v_parts, A_parts) \<Rightarrow>
      case concatenate v_parts of Inl e \<Rightarrow> Inl e | Inr vs \<Rightarrow>
      case concatenate A_parts of Inl e \<Rightarrow> Inl e | Inr As \<Rightarrow>
        Inr (logprobs, entropies, Vs, vs, As))"

text \<open>
  Lines 111 to 114: the advantages are standardized when the configuration asks for it,
  and the five tensors must have one dimension. The result is the batch that the loss
  is computed from.
\<close>

definition metrics :: "agent \<Rightarrow> network \<Rightarrow> trajectory list \<Rightarrow> error + batch" where
  "metrics a net D =
     (case estimates a net D of
        Inl e \<Rightarrow> Inl e
      | Inr (logprobs, entropies, Vs, vs, As) \<Rightarrow>
          let As' = (if agent_standardize_adv (config a) then standardize (map Fin As)
                     else map Fin As) in
          if ndimension logprobs = 1 \<and> ndimension entropies = 1 \<and> ndimension Vs = 1
          then Inr \<lparr>b_logprobs = entries logprobs, b_entropies = entries entropies,
                    b_Vs = entries Vs, b_vs = vs, b_As = As'\<rparr>
          else Inl AssertionError)"

text \<open>Lines 117 to 122. \<^verbatim>\<open>F.mse_loss\<close> without reduction is the squared difference.\<close>

definition policy_loss :: "batch \<Rightarrow> fl list" where
  "policy_loss b = map2 (\<lambda>logprob A. fmul (fneg (Fin logprob)) A) (b_logprobs b) (b_As b)"

definition entropy_loss :: "batch \<Rightarrow> fl list" where
  "entropy_loss b = map (\<lambda>entropy. fneg (Fin entropy)) (b_entropies b)"

definition value_loss :: "batch \<Rightarrow> fl list" where
  "value_loss b = map2 (\<lambda>V v. Fin ((V - v)\<^sup>2)) (b_Vs b) (b_vs b)"

definition loss_terms :: "config \<Rightarrow> batch \<Rightarrow> fl list" where
  "loss_terms cfg b =
     map2 (\<lambda>pv e. fadd pv (fmul (Fin (agent_entropy_coef cfg)) e))
       (map2 (\<lambda>p v. fadd p (fmul (Fin (agent_value_coef cfg)) v)) (policy_loss b) (value_loss b))
       (entropy_loss b)"

definition loss :: "config \<Rightarrow> batch \<Rightarrow> fl" where
  "loss cfg b = mean (loss_terms cfg b)"

text \<open>
  The calls on the optimizer and the scheduler, in the order of lines 124 to 129, with
  their arguments as they are when the call is made.
\<close>

datatype event =
    ZeroGrad
  | Backward fl
  | ClipGradNorm real
  | OptimizerStep
  | SchedulerStep "64 word"

text \<open>
  The report, without the entries that other missing modules compute (the learning
  rate, the gradient norm, the summary of the values and the explained variance).
\<close>

record report =
  out_loss :: fl
  out_policy_loss :: fl
  out_entropy_loss :: fl
  out_policy_entropy :: fl
  out_value_loss :: fl

definition scheduler_events :: "agent \<Rightarrow> error + event list" where
  "scheduler_events a =
     (if agent_use_lr_scheduler (config a)
      then (case lr_scheduler a of
              None \<Rightarrow> Inl AttributeError
            | Some sch \<Rightarrow> Inr [SchedulerStep (total_timestep a)])
      else Inr [])"

text \<open>
  \<^verbatim>\<open>Agent.learn\<close>. The counter is a 64-bit tensor and the addition of line 131 is done
  in place, so it wraps around.
\<close>

definition learn ::
  "agent \<Rightarrow> network \<Rightarrow> trajectory list \<Rightarrow> error + agent \<times> event list \<times> report" where
  "learn a net D =
     (case metrics a net D of Inl e \<Rightarrow> Inl e | Inr b \<Rightarrow>
      case scheduler_events a of Inl e \<Rightarrow> Inl e | Inr sched \<Rightarrow>
        Inr (a\<lparr>total_timestep := total_timestep a + of_nat (sum_list (map len_traj D))\<rparr>,
             [ZeroGrad, Backward (loss (config a) b),
              ClipGradNorm (agent_max_grad_norm (config a)), OptimizerStep] @ sched,
             \<lparr>out_loss = loss (config a) b,
              out_policy_loss = mean (policy_loss b),
              out_entropy_loss = mean (entropy_loss b),
              out_policy_entropy = fneg (mean (entropy_loss b)),
              out_value_loss = mean (value_loss b)\<rparr>))"

section \<open>Checkpoints\<close>

text \<open>
  Modelled from the spec: \<^verbatim>\<open>get_wrapper\<close> (the module
  \<^verbatim>\<open>lagom.envs.wrappers.get_wrapper\<close> is missing) looks for a wrapper of the named
  class in the environment stack, from the outside in, and returns it, or \<open>None\<close> when
  the stack has none.
\<close>

fun get_wrapper :: "env \<Rightarrow> string \<Rightarrow> layer option" where
  "get_wrapper (Base l) name = (if class_name l = name then Some l else None)"
| "get_wrapper (Wrapper l e) name = (if class_name l = name then Some l else get_wrapper e name)"

text \<open>Python's \<^verbatim>\<open>str\<close> of an integer, as the f-string of the file name formats it.\<close>

function digits :: "nat \<Rightarrow> string" where
  "digits n =
     (if n < 10 then [''0123456789'' ! n]
      else digits (n div 10) @ [''0123456789'' ! (n mod 10)])"
  by pat_completeness auto
termination
  by (relation "measure (\<lambda>n. n)") auto

declare digits.simps [simp del]

definition str_int :: "int \<Rightarrow> string" where
  "str_int i = (if i < 0 then CHR ''-'' # digits (nat (- i)) else digits (nat i))"

text \<open>Reading a string of digits back, to show that the formatting loses nothing.\<close>

definition digit_val :: "char \<Rightarrow> nat" where
  "digit_val c = of_char c - 48"

definition undigits :: "string \<Rightarrow> nat" where
  "undigits s = foldl (\<lambda>n c. 10 * n + digit_val c) 0 s"

text \<open>
  A path is a directory and a file name. The file system maps paths to what was
  written: the state of the module (its parameters and the buffer of the counter), or
  a pickled pair of moments.
\<close>

type_synonym path = "string \<times> string"

datatype file_content = StateDict "real list" "64 word" | Pickle "real list" "real list"

type_synonym fs = "path \<rightharpoonup> file_content"

definition agent_path :: "string \<Rightarrow> int \<Rightarrow> path" where
  "agent_path logdir num_iter = (logdir, ''agent_'' @ str_int num_iter @ ''.pth'')"

definition obs_moments_path :: "string \<Rightarrow> int \<Rightarrow> path" where
  "obs_moments_path logdir num_iter = (logdir, ''obs_moments_'' @ str_int num_iter @ ''.pth'')"

text \<open>
  Modelled from the spec: \<^verbatim>\<open>self.save\<close> and \<^verbatim>\<open>pickle_dump\<close> (the modules of
  \<^verbatim>\<open>BaseAgent\<close> and \<^verbatim>\<open>lagom.utils.serialize\<close> are missing) write the parameters of
  the model, and the object given, to the file named; \<^verbatim>\<open>pickle_dump\<close> appends the
  extension to the name.
\<close>

definition save :: "agent \<Rightarrow> real list \<Rightarrow> path \<Rightarrow> fs \<Rightarrow> fs" where
  "save a params f files = files(f \<mapsto> StateDict params (total_timestep a))"

definition pickle_dump :: "real list \<times> real list \<Rightarrow> path \<Rightarrow> fs \<Rightarrow> fs" where
  "pickle_dump obj f files = files(f \<mapsto> Pickle (fst obj) (snd obj))"

text \<open>
  \<^verbatim>\<open>Agent.checkpoint\<close>. The result is the file system after the call and the error
  raised, if any: the model is saved before the wrapper is looked for.
\<close>

definition checkpoint :: "agent \<Rightarrow> real list \<Rightarrow> string \<Rightarrow> int \<Rightarrow> fs \<Rightarrow> fs \<times> error option" where
  "checkpoint a params logdir num_iter files =
     (let files1 = save a params (agent_path logdir num_iter) files in
      case get_wrapper (env a) ''VecStandardizeObservation'' of
        None \<Rightarrow> (files1, None)
      | Some obs_env \<Rightarrow>
          (case moments obs_env of
             None \<Rightarrow> (files1, Some AttributeError)
           | Some mv \<Rightarrow> (pickle_dump mv (obs_moments_path logdir num_iter) files1, None)))"

text \<open>
  An environment is well-typed when every object of the class
  \<^verbatim>\<open>VecStandardizeObservation\<close> in its stack has the moments.
\<close>

definition well_typed :: "env \<Rightarrow> bool" where
  "well_typed e =
     list_all (\<lambda>l. if class_name l = ''VecStandardizeObservation'' then moments l \<noteq> None else True)
       (layers e)"

definition has_wrapper :: "env \<Rightarrow> string \<Rightarrow> bool" where
  "has_wrapper e name = list_ex (\<lambda>l. class_name l = name) (layers e)"

section \<open>Runs of the agent\<close>

text \<open>
  The operations on an agent, and a run of them. A call that raises leaves the agent
  as it was: \<^verbatim>\<open>learn\<close> changes the counter in its last statement that can change it.
\<close>

datatype operation =
    ChooseAction network "obs list"
  | Learn network "trajectory list"
  | Checkpoint "real list" string int

fun step :: "agent \<times> fs \<Rightarrow> operation \<Rightarrow> agent \<times> fs" where
  "step (a, files) (ChooseAction net observation) = (a, files)"
| "step (a, files) (Learn net D) =
     (case learn a net D of Inl e \<Rightarrow> (a, files) | Inr (a', events, out) \<Rightarrow> (a', files))"
| "step (a, files) (Checkpoint params logdir num_iter) =
     (a, fst (checkpoint a params logdir num_iter files))"

definition run :: "agent \<times> fs \<Rightarrow> operation list \<Rightarrow> agent \<times> fs" where
  "run s ops = foldl step s ops"

text \<open>The timesteps that the successful \<^verbatim>\<open>learn\<close> calls of a run add up to.\<close>

fun learned :: "agent \<Rightarrow> operation list \<Rightarrow> nat" where
  "learned a [] = 0"
| "learned a (ChooseAction net observation # ops) = learned a ops"
| "learned a (Checkpoint params logdir num_iter # ops) = learned a ops"
| "learned a (Learn net D # ops) =
     (case learn a net D of
        Inl e \<Rightarrow> learned a ops
      | Inr (a', events, out) \<Rightarrow> sum_list (map len_traj D) + learned a' ops)"

section \<open>Notions for the statements\<close>

text \<open>The sum of the squared deviations of a batch from its mean.\<close>

definition sq_dev :: "real list \<Rightarrow> real" where
  "sq_dev xs = (\<Sum>x\<leftarrow>xs. (x - sum_list xs / real (length xs))\<^sup>2)"

text \<open>
  A small agent, environment and batch, on which the theorems below are run: one
  trajectory of two steps that ends the episode, behaviour and target policies that
  agree, and an environment whose observations are standardized.
\<close>

definition ex_config :: config where
  "ex_config = \<lparr>nn_sizes = [64, 64], agent_std0 = 1 / 2, agent_lr = 1 / 1000,
      agent_use_lr_scheduler = True, train_timestep = 1000, agent_gamma = 99 / 100,
      agent_clip_rho = 1, agent_clip_pg_rho = 1, agent_standardize_adv = False,
      agent_value_coef = 1 / 2, agent_entropy_coef = 1 / 100, agent_max_grad_norm = 1 / 2\<rparr>"

definition ex_env :: env where
  "ex_env = Wrapper \<lparr>class_name = ''VecStandardizeObservation'', observation_space = Box [4],
                     action_space = Discrete 2, moments = Some ([0, 0, 0, 0], [1, 1, 1, 1])\<rparr>
             (Base \<lparr>class_name = ''CartPoleEnv'', observation_space = Box [4],
                    action_space = Discrete 2, moments = None\<rparr>)"

definition ex_other_env :: env where
  "ex_other_env = Base \<lparr>class_name = ''Grid'', observation_space = Box [4],
                         action_space = OtherSpace 3, moments = None\<rparr>"

definition ex_net :: network where
  "ex_net = \<lparr>policy_row = (\<lambda>i x. ([0], - (1 / 2), 1 / 2)), value_row = (\<lambda>x. 1 / 2)\<rparr>"

definition ex_traj :: trajectory where
  "ex_traj = \<lparr>observations = [[0, 0, 0, 0], [0, 0, 0, 0], [0, 0, 0, 0]],
     infos_action_logprob = [- (1 / 2), - (1 / 2)], rewards = [1, 1],
     reach_terminal = [False, True]\<rparr>"

definition ex_agent :: agent where
  "ex_agent = \<lparr>config = ex_config, env = ex_env, feature_network = MLP 4 [64, 64],
      action_head = Some (CategoricalHead 64 2), total_timestep = 0,
      lr_scheduler = Some (LinearLrScheduler 1000 (1 / 10 ^ 8)),
      gamma = 99 / 100, clip_rho = 1, clip_pg_rho = 1\<rparr>"

definition ex_batch :: batch where
  "ex_batch = \<lparr>b_logprobs = [- (1 / 2), - (1 / 2)], b_entropies = [1 / 2, 1 / 2],
      b_Vs = [1 / 2, 1 / 2], b_vs = [199 / 100, 1], b_As = [Fin (149 / 100), Fin (1 / 2)]\<rparr>"

definition ex_report :: report where
  "ex_report = \<lparr>out_loss = Fin (44401 / 40000), out_policy_loss = Fin (199 / 400),
      out_entropy_loss = Fin (- (1 / 2)), out_policy_entropy = Fin (1 / 2),
      out_value_loss = Fin (24701 / 20000)\<rparr>"

definition ex_events :: "64 word \<Rightarrow> event list" where
  "ex_events t = [ZeroGrad, Backward (Fin (44401 / 40000)), ClipGradNorm (1 / 2),
      OptimizerStep, SchedulerStep t]"

definition ex_other_agent :: agent where
  "ex_other_agent = \<lparr>config = ex_config, env = ex_other_env, feature_network = MLP 4 [64, 64],
      action_head = None, total_timestep = 0,
      lr_scheduler = Some (LinearLrScheduler 1000 (1 / 10 ^ 8)),
      gamma = 99 / 100, clip_rho = 1, clip_pg_rho = 1\<rparr>"


section \<open>Properties of the estimator\<close>

lemma zero_after_nth: "s \<le> t \<Longrightarrow> zero_after t xs ! s = xs ! s"
  by (cases "Suc t \<le> length xs") (simp_all add: zero_after_def nth_append)

lemma length_zero_after: "length (zero_after t xs) = length xs"
  by (simp add: zero_after_def)

lemma horizon_zeroed: "horizon (zeroed_after t I) = horizon I"
  by (simp add: horizon_def zeroed_after_def length_zero_after)

lemma well_formed_zeroed: "well_formed (zeroed_after t I) = well_formed I"
  by (simp add: well_formed_def horizon_def zeroed_after_def length_zero_after)

lemma zeroed_pointwise:
  assumes "s \<le> t"
  shows "ratio (zeroed_after t I) s = ratio I s" "rho (zeroed_after t I) s = rho I s"
    "cw (zeroed_after t I) s = cw I s" "cont (zeroed_after t I) s = cont I s"
    "rew (zeroed_after t I) ! s = rew I ! s" "val (zeroed_after t I) ! s = val I ! s"
  using assms
  by (simp_all add: ratio_def rho_def cw_def cont_def zeroed_after_def zero_after_nth)

lemma discount_zeroed: "discount (zeroed_after t I) = discount I"
  by (simp add: zeroed_after_def)

lemma V_next_zeroed: "s < t \<Longrightarrow> t < horizon I \<Longrightarrow> V_next (zeroed_after t I) s = V_next I s"
  by (simp add: V_next_def horizon_zeroed) (simp add: zeroed_after_def zero_after_nth)

lemma vtarget_done: "t < horizon I \<Longrightarrow> dones I ! t \<Longrightarrow>
   vtarget I t = val I ! t + rho I t * (rew I ! t - val I ! t)"
  by (simp add: vtarget.simps [of I t] delta_def cont_def)

lemma vtarget_zeroed:
  assumes "t < horizon I" "dones I ! t"
  shows "s \<le> t \<Longrightarrow> vtarget (zeroed_after t I) s = vtarget I s"
proof (induction "t - s" arbitrary: s)
  case 0
  then have "s = t" by simp
  moreover have "dones (zeroed_after t I) ! t" using assms by (simp add: zeroed_after_def)
  ultimately show ?case
    using assms by (simp add: vtarget_done horizon_zeroed zeroed_pointwise discount_zeroed)
next
  case (Suc k)
  then have lt: "s < t" and ih: "vtarget (zeroed_after t I) (Suc s) = vtarget I (Suc s)"
    by simp_all
  have sh: "\<not> horizon I \<le> s" using lt assms by simp
  show ?case
    using lt sh ih assms(1)
    by (simp add: vtarget.simps [of _ s] horizon_zeroed delta_def zeroed_pointwise V_next_zeroed discount_zeroed)
qed

lemma vtrace_of_Inr:
  "vtrace_of I = Inr (vs, As) \<longleftrightarrow>
     well_formed I \<and> vs = map (vtarget I) [0..<horizon I] \<and> As = map (advantage I) [0..<horizon I]"
  by (auto simp: vtrace_of_def)

lemma zeroed_record:
  "zeroed_after t \<lparr>mu_logp = mu, pi_logp = p, discount = g, rew = rs, val = V, val_last = vl,
       dones = ds, rho_bar = cr, c_bar = cp\<rparr>
   = \<lparr>mu_logp = zero_after t mu, pi_logp = zero_after t p, discount = g, rew = zero_after t rs,
      val = zero_after t V, val_last = 0, dones = ds, rho_bar = cr, c_bar = cp\<rparr>"
  by (simp add: zeroed_after_def)

text \<open>
  Claim C3. When the flag of step \<open>t\<close> is set, the value target at \<open>t\<close> is
  \<open>V[t] + rho[t] * (r[t] - V[t])\<close>, without \<open>V_next[t]\<close> and without the next target,
  and replacing by zero the rewards, values and log-probabilities after \<open>t\<close> and the
  bootstrap value leaves the value targets at the indices up to \<open>t\<close> unchanged.
\<close>

theorem vtrace_terminal_boundary:
  assumes "vtrace mu p g rs V vl ds cr cp = Inr (vs, As)"
    and "t < length rs" and "ds ! t"
  shows "\<exists>vs' As'.
           vtrace (zero_after t mu) (zero_after t p) g (zero_after t rs) (zero_after t V) 0 ds cr cp
             = Inr (vs', As')
           \<and> take (Suc t) vs' = take (Suc t) vs
           \<and> vs ! t = V ! t + min (exp (p ! t - mu ! t)) cr * (rs ! t - V ! t)"
proof -
  define I where "I = \<lparr>mu_logp = mu, pi_logp = p, discount = g, rew = rs, val = V,
                        val_last = vl, dones = ds, rho_bar = cr, c_bar = cp\<rparr>"
  have wf: "well_formed I" and vs: "vs = map (vtarget I) [0..<horizon I]"
    using assms(1) by (simp_all add: vtrace_def I_def [symmetric] vtrace_of_Inr)
  have t: "t < horizon I" and d: "dones I ! t"
    using assms(2,3) by (simp_all add: I_def horizon_def)
  have z: "vtrace (zero_after t mu) (zero_after t p) g (zero_after t rs) (zero_after t V) 0 ds cr cp
            = vtrace_of (zeroed_after t I)"
    by (simp add: vtrace_def I_def zeroed_record)
  have eq: "take (Suc t) (map (vtarget (zeroed_after t I)) [0..<horizon I])
             = take (Suc t) (map (vtarget I) [0..<horizon I])"
    using t by (intro nth_equalityI) (simp_all add: vtarget_zeroed [OF t d])
  have "vs ! t = vtarget I t" using t vs by simp
  also have "\<dots> = val I ! t + rho I t * (rew I ! t - val I ! t)"
    by (rule vtarget_done [OF t d])
  also have "\<dots> = V ! t + min (exp (p ! t - mu ! t)) cr * (rs ! t - V ! t)"
    by (simp add: I_def rho_def ratio_def)
  finally have at: "vs ! t = V ! t + min (exp (p ! t - mu ! t)) cr * (rs ! t - V ! t)" .
  show ?thesis
    using wf eq at
    by (simp add: z vtrace_of_def well_formed_zeroed horizon_zeroed vs)
qed


lemma vtarget_on_policy:
  assumes "mu_logp I = pi_logp I" "1 \<le> rho_bar I" "1 \<le> c_bar I"
  shows "vtarget I t = bootstrapped_return (discount I) (rew I) (dones I) (val_last I) t"
  using assms
proof (induction I t rule: vtarget.induct)
  case (1 I t)
  show ?case
  proof (cases "horizon I \<le> t")
    case True
    then show ?thesis
      by (simp add: vtarget.simps [of I t] bootstrapped_return.simps [of _ _ _ _ t] horizon_def)
  next
    case False
    have r: "rho I t = 1" "cw I t = 1"
      using 1(2-4) by (simp_all add: rho_def cw_def ratio_def)
    have ih: "vtarget I (t + 1) = bootstrapped_return (discount I) (rew I) (dones I) (val_last I) (t + 1)"
      using 1 False by simp
    show ?thesis
      using False ih
      by (simp add: vtarget.simps [of I t] bootstrapped_return.simps [of _ _ _ _ t] horizon_def
          r delta_def cont_def algebra_simps)
  qed
qed

text \<open>
  Claim C2. When the behaviour log-probabilities are the target log-probabilities at
  every step and both clip thresholds are at least 1, every importance ratio is 1, both
  clipped weights are 1 at every step, and the value targets that the estimator returns
  are the n-step bootstrapped returns of the trajectory.
\<close>

theorem vtrace_on_policy:
  assumes "length mu = length rs" "length V = length rs" "length ds = length rs"
    and "1 \<le> cr" "1 \<le> cp"
    and "I = \<lparr>mu_logp = mu, pi_logp = mu, discount = g, rew = rs, val = V, val_last = vl,
               dones = ds, rho_bar = cr, c_bar = cp\<rparr>"
  shows "(\<forall>t < length rs. ratio I t = 1 \<and> rho I t = 1 \<and> cw I t = 1)
     \<and> (\<exists>As. vtrace mu mu g rs V vl ds cr cp
                = Inr (map (bootstrapped_return g rs ds vl) [0..<length rs], As))"
proof -
  have on: "mu_logp I = pi_logp I" "1 \<le> rho_bar I" "1 \<le> c_bar I"
    using assms by simp_all
  have w: "\<forall>t < length rs. ratio I t = 1 \<and> rho I t = 1 \<and> cw I t = 1"
    using on by (simp add: ratio_def rho_def cw_def)
  have wf: "well_formed I"
    using assms by (simp add: well_formed_def horizon_def)
  have f: "discount I = g" "rew I = rs" "dones I = ds" "val_last I = vl"
    using assms(6) by simp_all
  have "vtarget I t = bootstrapped_return g rs ds vl t" for t
    using vtarget_on_policy [OF on, of t] by (simp only: f)
  then have "map (vtarget I) [0..<horizon I] = map (bootstrapped_return g rs ds vl) [0..<length rs]"
    by (simp add: horizon_def f)
  then have "\<exists>As. vtrace mu mu g rs V vl ds cr cp
                = Inr (map (bootstrapped_return g rs ds vl) [0..<length rs], As)"
    using wf by (simp add: vtrace_def vtrace_of_def assms(6) [symmetric])
  with w show ?thesis by blast
qed

text \<open>
  Claim C4. For a well-formed trajectory of length \<open>T\<close> the estimator returns a
  sequence of value targets and a sequence of advantages, each of length \<open>T\<close>, and
  the entries at index \<open>t\<close> are the target and the advantage of step \<open>t\<close>: they are
  computed from the reward, the value and the weights at \<open>t\<close> and from the target at
  \<open>t + 1\<close>.
\<close>

theorem vtrace_shape:
  assumes "length mu = length rs" "length p = length rs" "length V = length rs"
    and "length ds = length rs"
    and "I = \<lparr>mu_logp = mu, pi_logp = p, discount = g, rew = rs, val = V, val_last = vl,
               dones = ds, rho_bar = cr, c_bar = cp\<rparr>"
  shows "\<exists>vs As. vtrace mu p g rs V vl ds cr cp = Inr (vs, As)
           \<and> length vs = length rs \<and> length As = length rs
           \<and> (\<forall>t < length rs.
                 vs ! t = V ! t + delta I t
                     + g * cw I t * cont I t
                       * ((if t + 1 < length rs then vs ! (t + 1) else vl) - V_next I t)
               \<and> As ! t = cw I t * (rs ! t
                     + g * cont I t * (if t + 1 < length rs then vs ! (t + 1) else vl) - V ! t))"
proof -
  have wf: "well_formed I" and h: "horizon I = length rs"
    using assms by (simp_all add: well_formed_def horizon_def)
  have f: "val_last I = vl" "discount I = g" "val I = V" "rew I = rs"
    using assms(5) by simp_all
  have al: "\<forall>t < length rs.
          map (vtarget I) [0..<length rs] ! t = V ! t + delta I t
              + g * cw I t * cont I t
                * ((if t + 1 < length rs then map (vtarget I) [0..<length rs] ! (t + 1) else vl) - V_next I t)
        \<and> map (advantage I) [0..<length rs] ! t = cw I t * (rs ! t
              + g * cont I t * (if t + 1 < length rs then map (vtarget I) [0..<length rs] ! (t + 1) else vl) - V ! t)"
  proof (intro allI impI)
    fix t assume t: "t < length rs"
    have 1: "vtarget I t = V ! t + delta I t + g * cw I t * cont I t * (vtarget I (t + 1) - V_next I t)"
      using t by (subst vtarget.simps) (simp add: h f)
    have 2: "advantage I t = cw I t * (rs ! t + g * cont I t * vtarget I (t + 1) - V ! t)"
      by (simp add: advantage_def f)
    have m: "map (vtarget I) [0..<length rs] ! t = vtarget I t"
      "map (advantage I) [0..<length rs] ! t = advantage I t"
      using t by simp_all
    have nx: "(if t + 1 < length rs then map (vtarget I) [0..<length rs] ! (t + 1) else vl)
               = vtarget I (t + 1)"
    proof (cases "t + 1 < length rs")
      case True
      then show ?thesis by simp
    next
      case False
      then have "vtarget I (t + 1) = vl"
        by (subst vtarget.simps) (simp add: h f)
      with False show ?thesis by simp
    qed
    show "map (vtarget I) [0..<length rs] ! t = V ! t + delta I t
              + g * cw I t * cont I t
                * ((if t + 1 < length rs then map (vtarget I) [0..<length rs] ! (t + 1) else vl) - V_next I t)
        \<and> map (advantage I) [0..<length rs] ! t = cw I t * (rs ! t
              + g * cont I t * (if t + 1 < length rs then map (vtarget I) [0..<length rs] ! (t + 1) else vl) - V ! t)"
      unfolding m nx by (rule conjI [OF 1 2])
  qed
  have v: "vtrace mu p g rs V vl ds cr cp
      = Inr (map (vtarget I) [0..<length rs], map (advantage I) [0..<length rs])"
    using wf h by (simp add: vtrace_def vtrace_of_def assms(5) [symmetric])
  have l: "length (map (vtarget I) [0..<length rs]) = length rs"
    "length (map (advantage I) [0..<length rs]) = length rs"
    by simp_all
  show ?thesis
    by (intro exI [of _ "map (vtarget I) [0..<length rs]"]
              exI [of _ "map (advantage I) [0..<length rs]"] conjI)
       (rule v l al)+
qed

theorem vtrace_on_policy_witness:
  "ratio \<lparr>mu_logp = [0, 0], pi_logp = [0, 0], discount = 99 / 100, rew = [1, 1],
          val = [1 / 2, 1 / 2], val_last = 0, dones = [False, True], rho_bar = 1,
          c_bar = 1\<rparr> 1 = 1
   \<and> rho \<lparr>mu_logp = [0, 0], pi_logp = [0, 0], discount = 99 / 100, rew = [1, 1],
          val = [1 / 2, 1 / 2], val_last = 0, dones = [False, True], rho_bar = 1,
          c_bar = 1\<rparr> 1 = 1
   \<and> cw \<lparr>mu_logp = [0, 0], pi_logp = [0, 0], discount = 99 / 100, rew = [1, 1],
          val = [1 / 2, 1 / 2], val_last = 0, dones = [False, True], rho_bar = 1,
          c_bar = 1\<rparr> 1 = 1
   \<and> (\<exists>As. vtrace [0, 0] [0, 0] (99 / 100) [1, 1] [1 / 2, 1 / 2] 0 [False, True] 1 1
              = Inr (map (bootstrapped_return (99 / 100) [1, 1] [False, True] 0)
                       [0..<length [1, 1 :: real]], As))"
proof -
  have l: "length [0, 0 :: real] = length [1, 1 :: real]"
    "length [1 / 2, 1 / 2 :: real] = length [1, 1 :: real]"
    "length [False, True] = length [1, 1 :: real]"
    and c: "(1 :: real) \<le> 1" and t: "1 < length [1, 1 :: real]"
    by simp_all
  from vtrace_on_policy [OF l(1) l(2) l(3) c c refl, where g = "99 / 100" and vl = 0] t
  show ?thesis
    by blast
qed

theorem vtrace_terminal_boundary_witness:
  "\<exists>vs' As'.
      vtrace (zero_after 0 [0, 0]) (zero_after 0 [0, 0]) (99 / 100) (zero_after 0 [1, 5])
        (zero_after 0 [1 / 2, 7]) 0 [True, False] 1 1 = Inr (vs', As')
      \<and> take (Suc 0) vs' = take (Suc 0) [1, 797 / 100]
      \<and> [1, 797 / 100] ! 0 = [1 / 2, 7 :: real] ! 0
          + min (exp ([0, 0] ! 0 - [0, 0] ! 0)) 1 * ([1, 5] ! 0 - [1 / 2, 7] ! 0)"
proof -
  have v: "vtrace [0, 0] [0, 0] (99 / 100) [1, 5] [1 / 2, 7] 3 [True, False] 1 1
            = Inr ([1, 797 / 100], [1 / 2, 97 / 100])"
    by (simp add: vtrace_def vtrace_of_def well_formed_def horizon_def vtarget.simps
        advantage_def delta_def V_next_def cont_def cw_def rho_def ratio_def upt_rec)
  have t: "0 < length [1, 5 :: real]" and d: "[True, False] ! 0"
    by simp_all
  show ?thesis
    by (rule vtrace_terminal_boundary [OF v t d])
qed

theorem vtrace_shape_witness:
  "\<exists>vs As. vtrace [0, 0] [0, 0] (99 / 100) [1, 1] [1 / 2, 1 / 2] 0 [False, True] 1 1 = Inr (vs, As)
           \<and> length vs = 2 \<and> length As = 2"
proof -
  have l: "length [0, 0 :: real] = length [1, 1 :: real]"
    "length [1 / 2, 1 / 2 :: real] = length [1, 1 :: real]"
    "length [False, True] = length [1, 1 :: real]"
    by simp_all
  from vtrace_shape [OF l(1) l(1) l(2) l(3) refl,
      where g = "99 / 100" and vl = 0 and cr = 1 and cp = 1]
  obtain vs As where
    "vtrace [0, 0] [0, 0] (99 / 100) [1, 1] [1 / 2, 1 / 2] 0 [False, True] 1 1 = Inr (vs, As)"
    "length vs = length [1, 1 :: real]" "length As = length [1, 1 :: real]"
    by blast
  then show ?thesis by simp
qed

section \<open>Properties of the tensors and of a batch\<close>

lemma fsum_Fin: "fsum (map Fin xs) = Fin (sum_list xs)"
  by (induction xs) (simp_all add: fsum_def)

lemma mean_Fin: "xs \<noteq> [] \<Longrightarrow> mean (map Fin xs) = Fin (sum_list xs / real (length xs))"
  by (simp add: mean_def fsum_Fin)

lemma mean_Nil: "mean [] = NaN"
  by (simp add: mean_def fsum_def)

lemma sq_dev_nonneg: "0 \<le> sq_dev xs"
  unfolding sq_dev_def by (rule sum_list_nonneg) auto

lemma std_Fin:
  assumes "2 \<le> length xs"
  shows "std (map Fin xs) = Fin (sqrt (sq_dev xs / real (length xs - 1)))"
proof -
  have ne: "xs \<noteq> []" using assms by auto
  have "map (\<lambda>x. fmul (fsub x (mean (map Fin xs))) (fsub x (mean (map Fin xs)))) (map Fin xs)
        = map Fin (map (\<lambda>x. (x - sum_list xs / real (length xs))\<^sup>2) xs)"
    by (simp add: mean_Fin [OF ne] power2_eq_square)
  then have "fsum (map (\<lambda>x. fmul (fsub x (mean (map Fin xs))) (fsub x (mean (map Fin xs)))) (map Fin xs))
        = Fin (sq_dev xs)"
    by (simp only: fsum_Fin sq_dev_def)
  moreover have "real (length xs - 1) \<noteq> 0" using assms by simp
  moreover have "\<not> sq_dev xs / real (length xs - 1) < 0"
    using sq_dev_nonneg [of xs] by (simp add: not_less divide_nonneg_nonneg)
  ultimately show ?thesis
    by (simp add: std_def)
qed


lemma adv_divisor_Fin:
  assumes "2 \<le> length xs"
  shows "adv_divisor (map Fin xs) = Fin (sqrt (sq_dev xs / real (length xs - 1)) + 1 / 10 ^ 8)"
  by (simp add: adv_divisor_def std_Fin [OF assms])


lemma root_nonneg: "0 \<le> sqrt (sq_dev xs / real (length xs - 1))"
  using sq_dev_nonneg [of xs] by (simp add: divide_nonneg_nonneg)


lemma divisor_nonzero: "sqrt (sq_dev xs / real (length xs - 1)) + (1 / 10 ^ 8 :: real) \<noteq> 0"
proof -
  have "(0::real) < 1 / 10 ^ 8" by simp
  with root_nonneg [of xs] show ?thesis by linarith
qed

lemma standardize_Fin:
  assumes "2 \<le> length xs"
  shows "standardize (map Fin xs)
         = map (\<lambda>x. Fin ((x - sum_list xs / real (length xs))
                            / (sqrt (sq_dev xs / real (length xs - 1)) + 1 / 10 ^ 8))) xs"
proof -
  have ne: "xs \<noteq> []" using assms by auto
  show ?thesis
    by (simp only: standardize_def adv_divisor_Fin [OF assms] mean_Fin [OF ne] map_map o_def
        fsub.simps fdiv.simps divisor_nonzero if_False)
qed


lemma squeeze_T1: "squeeze xs = T1 ys \<longleftrightarrow> ys = xs \<and> length xs \<noteq> 1"
  by (auto simp: squeeze_def split: list.splits)

lemma ndimension_squeeze: "ndimension (squeeze xs) = 1 \<longleftrightarrow> length xs \<noteq> 1"
  by (auto simp: squeeze_def split: list.splits)

lemma entries_squeeze: "entries (squeeze xs) = xs"
  by (auto simp: squeeze_def split: list.splits)

lemma split_squeeze:
  "split (squeeze xs) Ts = Inr parts \<longleftrightarrow>
     length xs \<noteq> 1 \<and> sum_list Ts = length xs \<and> parts = chunks xs Ts"
  by (cases "squeeze xs") (auto simp: squeeze_def split: list.splits)

lemma length_chunks: "length (chunks xs ns) = length ns"
  by (induction ns arbitrary: xs) simp_all

lemma vtrace_Inr_lengths:
  assumes "vtrace mu p g rs V vl ds cr cp = Inr (vs, As)"
  shows "length vs = length rs" "length As = length rs" "length mu = length rs"
  using assms by (auto simp: vtrace_def vtrace_of_def well_formed_def horizon_def split: if_splits)

lemma vtrace_loop_Inr:
  "vtrace_loop a zs = Inr (vps, Aps) \<Longrightarrow>
     length (concat vps) = sum_list (map (\<lambda>z. len_traj (fst z)) zs)
     \<and> length (concat Aps) = sum_list (map (\<lambda>z. len_traj (fst z)) zs)
     \<and> list_all (\<lambda>z. length (fst (snd z)) = len_traj (fst z)) zs
     \<and> (zs \<noteq> [] \<longrightarrow> vps \<noteq> [] \<and> Aps \<noteq> [])"
proof (induction zs arbitrary: vps Aps)
  case Nil
  then show ?case by simp
next
  case (Cons z zs)
  obtain traj blp lp V lv where z: "z = (traj, blp, lp, V, lv)"
    by (cases z) auto
  from Cons.prems obtain v A vps' Aps' where
    v: "vtrace blp lp (gamma a) (rewards traj) V lv (reach_terminal traj) (clip_rho a) (clip_pg_rho a)
          = Inr (v, A)"
    and rest: "vtrace_loop a zs = Inr (vps', Aps')"
    and eq: "vps = v # vps'" "Aps = A # Aps'"
    by (auto simp: z split: sum.splits)
  from Cons.IH [OF rest] vtrace_Inr_lengths [OF v] show ?case
    by (simp add: z eq len_traj_def)
qed

lemma metrics_unfold:
  "metrics a net D =
     (let Ts = map len_traj D in
      case behavior_logprobs_of D of Inl e \<Rightarrow> Inl e | Inr behavior_logprobs \<Rightarrow>
      case batch_observations D of Inl e \<Rightarrow> Inl e | Inr observation \<Rightarrow>
      case choose_action a net observation of Inl e \<Rightarrow> Inl e | Inr out_agent \<Rightarrow>
      let logprobs = squeeze (map out_action_logprob out_agent);
          entropies = squeeze (map out_entropy out_agent);
          Vs = squeeze (map out_V out_agent);
          last_Vs = map (\<lambda>traj. value_row net (last (observations traj))) D in
      case split logprobs Ts of Inl e \<Rightarrow> Inl e | Inr logprob_parts \<Rightarrow>
      case split Vs Ts of Inl e \<Rightarrow> Inl e | Inr V_parts \<Rightarrow>
      case vtrace_loop a (zip D (zip behavior_logprobs (zip logprob_parts (zip V_parts last_Vs))))
        of Inl e \<Rightarrow> Inl e | Inr (v_parts, A_parts) \<Rightarrow>
      case concatenate v_parts of Inl e \<Rightarrow> Inl e | Inr vs \<Rightarrow>
      case concatenate A_parts of Inl e \<Rightarrow> Inl e | Inr As \<Rightarrow>
      let As' = (if agent_standardize_adv (config a) then standardize (map Fin As)
                 else map Fin As) in
      if ndimension logprobs = 1 \<and> ndimension entropies = 1 \<and> ndimension Vs = 1
      then Inr \<lparr>b_logprobs = entries logprobs, b_entropies = entries entropies,
                b_Vs = entries Vs, b_vs = vs, b_As = As'\<rparr>
      else Inl AssertionError)"
  by (simp add: metrics_def estimates_def Let_def split: sum.splits prod.splits)

lemma metrics_Inr:
  assumes "metrics a net D = Inr b"
  shows "\<exists>As. 2 \<le> sum_list (map len_traj D)
     \<and> length (b_logprobs b) = sum_list (map len_traj D)
     \<and> length (b_entropies b) = sum_list (map len_traj D)
     \<and> length (b_Vs b) = sum_list (map len_traj D)
     \<and> length (b_vs b) = sum_list (map len_traj D)
     \<and> length As = sum_list (map len_traj D)
     \<and> b_As b = (if agent_standardize_adv (config a) then standardize (map Fin As) else map Fin As)"
proof -
  define Ts where "Ts = map len_traj D"
  define last_Vs where "last_Vs = map (\<lambda>traj. value_row net (last (observations traj))) D"
  from assms obtain blps observation out_agent lps Vps vps Aps vs As where
    blps: "behavior_logprobs_of D = Inr blps"
    and ob: "batch_observations D = Inr observation"
    and out: "choose_action a net observation = Inr out_agent"
    and lps: "split (squeeze (map out_action_logprob out_agent)) Ts = Inr lps"
    and Vps: "split (squeeze (map out_V out_agent)) Ts = Inr Vps"
    and loop: "vtrace_loop a (zip D (zip blps (zip lps (zip Vps last_Vs)))) = Inr (vps, Aps)"
    and vs: "concatenate vps = Inr vs" and As: "concatenate Aps = Inr As"
    and b: "b = \<lparr>b_logprobs = entries (squeeze (map out_action_logprob out_agent)),
             b_entropies = entries (squeeze (map out_entropy out_agent)),
             b_Vs = entries (squeeze (map out_V out_agent)), b_vs = vs,
             b_As = (if agent_standardize_adv (config a) then standardize (map Fin As)
                     else map Fin As)\<rparr>"
    unfolding metrics_unfold Let_def Ts_def last_Vs_def
    by (auto split: sum.splits if_splits prod.splits)
  define zs where "zs = zip D (zip blps (zip lps (zip Vps last_Vs)))"
  note loop = loop [folded zs_def]
  have n: "length out_agent = sum_list Ts" and n1: "length out_agent \<noteq> 1"
    and lps_eq: "lps = chunks (map out_action_logprob out_agent) Ts"
    using lps by (simp_all add: split_squeeze)
  have Vps_eq: "Vps = chunks (map out_V out_agent) Ts"
    using Vps by (simp add: split_squeeze)
  have blps_eq: "blps = map infos_action_logprob D"
    and nonempty: "\<not> list_ex (\<lambda>traj. infos_action_logprob traj = []) D"
    using blps by (auto simp: behavior_logprobs_of_def split: if_splits)
  have D: "D \<noteq> []"
    using ob by (auto simp: batch_observations_def concatenate_def split: if_splits)
  have len: "length blps = length D" "length lps = length D" "length Vps = length D"
    "length last_Vs = length D"
    by (simp_all add: blps_eq lps_eq Vps_eq length_chunks Ts_def last_Vs_def)
  have fst_zs: "map fst zs = D"
    unfolding zs_def by (rule map_fst_zip) (simp add: len)
  have blp_zs: "map (\<lambda>z. fst (snd z)) zs = blps"
  proof -
    have "map snd zs = zip blps (zip lps (zip Vps last_Vs))"
      unfolding zs_def by (rule map_snd_zip) (simp add: len)
    then have "map fst (map snd zs) = blps"
      by (simp add: len)
    then show ?thesis by (simp add: o_def)
  qed
  have total: "sum_list (map (\<lambda>z. len_traj (fst z)) zs) = sum_list Ts"
  proof -
    have "map (\<lambda>z. len_traj (fst z)) zs = map len_traj (map fst zs)" by (simp add: o_def)
    then show ?thesis by (simp add: fst_zs Ts_def)
  qed
  from vtrace_loop_Inr [OF loop] have
    lv: "length (concat vps) = sum_list Ts" and lA: "length (concat Aps) = sum_list Ts"
    and all: "list_all (\<lambda>z. length (fst (snd z)) = len_traj (fst z)) zs"
    by (simp_all add: total)
  have vs_eq: "vs = concat vps" and As_eq: "As = concat Aps"
    using vs As by (auto simp: concatenate_def split: if_splits)
  have pos: "0 < sum_list Ts"
  proof -
    obtain traj D' where DD: "D = traj # D'" using D by (cases D) auto
    then obtain z zs' where zz: "zs = z # zs'" and fz: "fst z = traj"
      using fst_zs by (cases zs) auto
    have "fst (snd z) = infos_action_logprob traj"
      using blp_zs zz DD by (simp add: blps_eq)
    moreover have "length (fst (snd z)) = len_traj (fst z)"
      using all zz by simp
    moreover have "infos_action_logprob traj \<noteq> []"
      using nonempty DD by simp
    ultimately have "0 < len_traj traj" by (cases "infos_action_logprob traj") (auto simp: fz)
    then show ?thesis by (simp add: Ts_def DD)
  qed
  have two: "2 \<le> sum_list Ts" using pos n n1 by linarith
  show ?thesis
    using two n lv lA
    by (intro exI [of _ As]) (simp add: b entries_squeeze Ts_def [symmetric] vs_eq As_eq)
qed

lemma loss_terms_Fin:
  assumes "length lp = n" "length en = n" "length V = n" "length v = n" "length A = n"
  shows "loss_terms cfg \<lparr>b_logprobs = lp, b_entropies = en, b_Vs = V, b_vs = v, b_As = map Fin A\<rparr>
     = map Fin (map (\<lambda>i. - (lp ! i) * A ! i + agent_value_coef cfg * (V ! i - v ! i)\<^sup>2
                            + agent_entropy_coef cfg * - (en ! i)) [0..<n])"
  using assms
  by (intro nth_equalityI)
     (simp_all add: loss_terms_def policy_loss_def value_loss_def entropy_loss_def)

lemma loss_Fin:
  assumes "length lp = n" "length en = n" "length V = n" "length v = n" "length A = n" "0 < n"
  shows "loss cfg \<lparr>b_logprobs = lp, b_entropies = en, b_Vs = V, b_vs = v, b_As = map Fin A\<rparr>
     = Fin ((\<Sum>i<n. - (lp ! i) * A ! i + agent_value_coef cfg * (V ! i - v ! i)\<^sup>2
                            + agent_entropy_coef cfg * - (en ! i)) / real n)"
proof -
  have "sum_list (map (\<lambda>i. - (lp ! i) * A ! i + agent_value_coef cfg * (V ! i - v ! i)\<^sup>2
                            + agent_entropy_coef cfg * - (en ! i)) [0..<n])
        = (\<Sum>i<n. - (lp ! i) * A ! i + agent_value_coef cfg * (V ! i - v ! i)\<^sup>2
                            + agent_entropy_coef cfg * - (en ! i))"
    by (simp add: interv_sum_list_conv_sum_set_nat atLeast0LessThan)
  then show ?thesis
    using assms(6)
    by (simp only: loss_def loss_terms_Fin [OF assms(1-5)] mean_def fsum_Fin length_map length_upt
        fdiv.simps) simp
qed

lemma As_finite:
  assumes "2 \<le> length As"
  shows "\<exists>A. length A = length As
     \<and> (if c then standardize (map Fin As) else map Fin As) = map Fin A"
proof (cases c)
  case True
  have "standardize (map Fin As)
        = map Fin (map (\<lambda>x. (x - sum_list As / real (length As))
                            / (sqrt (sq_dev As / real (length As - 1)) + 1 / 10 ^ 8)) As)"
    by (simp only: standardize_Fin [OF assms] map_map o_def)
  with True show ?thesis
    by (intro exI [of _ "map (\<lambda>x. (x - sum_list As / real (length As))
                            / (sqrt (sq_dev As / real (length As - 1)) + 1 / 10 ^ 8)) As"])
       (simp only: length_map if_True simp_thms)
next
  case False
  then show ?thesis by (intro exI [of _ As]) simp
qed

text \<open>
  Claim C5. In a call of \<^verbatim>\<open>learn\<close> that returns, the scalar given to
  \<^verbatim>\<open>backward\<close> is the reported loss, and it is the mean over the \<open>N\<close> timesteps of
  the batch of \<open>- logprob * advantage + value_coef * (V - vtarget)\<^sup>2 + entropy_coef * (-
  entropy)\<close>. The batch has two timesteps at least and its advantages, standardized or
  not, are numbers, so the loss is a number.
\<close>

theorem learn_loss:
  assumes "learn a net D = Inr (a', events, out)"
  shows "\<exists>b A. metrics a net D = Inr b
     \<and> length (b_logprobs b) = sum_list (map len_traj D)
     \<and> length (b_entropies b) = sum_list (map len_traj D)
     \<and> length (b_Vs b) = sum_list (map len_traj D)
     \<and> length (b_vs b) = sum_list (map len_traj D)
     \<and> length A = sum_list (map len_traj D)
     \<and> b_As b = map Fin A
     \<and> events ! 1 = Backward (out_loss out)
     \<and> out_loss out =
         Fin ((\<Sum>i\<in>{..<sum_list (map len_traj D)}.
                 - (b_logprobs b ! i) * A ! i
                 + agent_value_coef (config a) * (b_Vs b ! i - b_vs b ! i)\<^sup>2
                 + agent_entropy_coef (config a) * - (b_entropies b ! i))
              / real (sum_list (map len_traj D)))"
proof -
  from assms obtain b sched where m: "metrics a net D = Inr b"
    and ev: "events = [ZeroGrad, Backward (loss (config a) b),
              ClipGradNorm (agent_max_grad_norm (config a)), OptimizerStep] @ sched"
    and ol: "out_loss out = loss (config a) b"
    by (auto simp: learn_def split: sum.splits)
  define n where "n = sum_list (map len_traj D)"
  from metrics_Inr [OF m] obtain As where two: "2 \<le> n"
    and l: "length (b_logprobs b) = n" "length (b_entropies b) = n" "length (b_Vs b) = n"
       "length (b_vs b) = n" "length As = n"
    and bA: "b_As b = (if agent_standardize_adv (config a) then standardize (map Fin As) else map Fin As)"
    unfolding n_def by blast
  from As_finite [of As "agent_standardize_adv (config a)"] two l(5) obtain A where
    A: "length A = n" "b_As b = map Fin A"
    using bA by auto
  have b: "b = \<lparr>b_logprobs = b_logprobs b, b_entropies = b_entropies b, b_Vs = b_Vs b,
                b_vs = b_vs b, b_As = map Fin A\<rparr>"
    using A(2) by simp
  have pos: "0 < n" using two by simp
  have "loss (config a) b = Fin ((\<Sum>i<n. - (b_logprobs b ! i) * A ! i
                 + agent_value_coef (config a) * (b_Vs b ! i - b_vs b ! i)\<^sup>2
                 + agent_entropy_coef (config a) * - (b_entropies b ! i)) / real n)"
    by (subst b) (rule loss_Fin [OF l(1-4) A(1) pos])
  then show ?thesis
    using m l A ev ol unfolding n_def by (intro exI [of _ b] exI [of _ A]) simp
qed




section \<open>Properties of the agent\<close>

lemma sint_add_of_nat:
  fixes w :: "64 word"
  assumes "sint w + int n < 2 ^ 63"
  shows "sint (w + of_nat n) = sint w + int n"
proof -
  have lo: "- (2 ^ 63) \<le> sint w + int n"
    using sint_ge [of w] by simp
  have "w + of_nat n = word_of_int (sint w + int n)"
    by simp
  then have "sint (w + of_nat n) = signed_take_bit 63 (sint w + int n)"
    by (simp only: sint_sbintrunc') simp
  also have "\<dots> = sint w + int n"
    using lo assms by (simp add: signed_take_bit_int_eq_self)
  finally show ?thesis .
qed

lemma learn_counter:
  "learn a net D = Inr (a', events, out) \<Longrightarrow>
     total_timestep a' = total_timestep a + of_nat (sum_list (map len_traj D))"
  by (auto simp: learn_def split: sum.splits)

lemma learn_events:
  "learn a net D = Inr (a', events, out) \<Longrightarrow> agent_use_lr_scheduler (config a) \<Longrightarrow>
     \<exists>l. events = [ZeroGrad, Backward l, ClipGradNorm (agent_max_grad_norm (config a)),
                    OptimizerStep, SchedulerStep (total_timestep a)]"
  by (auto simp: learn_def scheduler_events_def split: sum.splits option.splits)

lemma run_Cons: "run s (x # ops) = run (step s x) ops"
  by (simp add: run_def)

lemma run_counter:
  "sint (total_timestep a) + int (learned a ops) < 2 ^ 63 \<Longrightarrow>
     sint (total_timestep (fst (run (a, files) ops))) = sint (total_timestep a) + int (learned a ops)"
proof (induction ops arbitrary: a files)
  case Nil
  then show ?case by (simp add: run_def)
next
  case (Cons x ops)
  show ?case
  proof (cases x)
    case (ChooseAction net observation)
    with Cons show ?thesis by (simp add: run_Cons)
  next
    case (Checkpoint params logdir num_iter)
    with Cons show ?thesis by (simp add: run_Cons)
  next
    case (Learn net D)
    show ?thesis
    proof (cases "learn a net D")
      case (Inl e)
      with Cons Learn show ?thesis by (simp add: run_Cons)
    next
      case (Inr r)
      obtain a' events out where r: "r = (a', events, out)" by (cases r) auto
      let ?n = "sum_list (map len_traj D)"
      have bound: "sint (total_timestep a) + int ?n + int (learned a' ops) < 2 ^ 63"
        using Cons.prems Learn Inr r by simp
      then have "sint (total_timestep a) + int ?n < 2 ^ 63" by linarith
      then have st: "sint (total_timestep a') = sint (total_timestep a) + int ?n"
        using learn_counter [of a net D a' events out] Inr r by (simp add: sint_add_of_nat)
      have "sint (total_timestep (fst (run (a', files) ops)))
              = sint (total_timestep a') + int (learned a' ops)"
        using bound st by (intro Cons.IH) simp
      then show ?thesis
        using Learn Inr r st by (simp add: run_Cons)
    qed
  qed
qed

lemma run_append: "run s (ops1 @ ops2) = run (run s ops1) ops2"
  by (simp add: run_def)

lemma learned_append:
  "learned a (ops1 @ ops2) = learned a ops1 + learned (fst (run (a, files) ops1)) ops2"
proof (induction ops1 arbitrary: a files)
  case Nil
  then show ?case by (simp add: run_def)
next
  case (Cons x ops1)
  show ?case
  proof (cases x)
    case (ChooseAction net observation)
    then show ?thesis using Cons [of a files] by (simp add: run_Cons)
  next
    case (Checkpoint params logdir num_iter)
    then show ?thesis
      using Cons [of a "fst (checkpoint a params logdir num_iter files)"] by (simp add: run_Cons)
  next
    case (Learn net D)
    then show ?thesis
      using Cons [of _ files] by (auto simp: run_Cons split: sum.splits)
  qed
qed

lemma run_monotone:
  assumes "sint (total_timestep a) + int (learned a (ops1 @ ops2)) < 2 ^ 63"
  shows "sint (total_timestep (fst (run (a, files) ops1)))
          \<le> sint (total_timestep (fst (run (a, files) (ops1 @ ops2))))"
proof -
  have l: "learned a ops1 \<le> learned a (ops1 @ ops2)"
    by (simp add: learned_append [of a ops1 ops2 files])
  then have "sint (total_timestep a) + int (learned a ops1) < 2 ^ 63"
    using assms by linarith
  from run_counter [OF this, of files] run_counter [OF assms, of files] l show ?thesis
    by simp
qed

text \<open>
  Claim C10. For an environment whose action space is neither \<^verbatim>\<open>Discrete\<close> nor
  \<^verbatim>\<open>Box\<close> (and a configuration with one layer size at least) the constructor returns
  an agent without \<^verbatim>\<open>action_head\<close>, and every \<^verbatim>\<open>choose_action\<close> on that agent
  raises \<^verbatim>\<open>AttributeError\<close>.
\<close>

theorem init_unknown_action_space:
  assumes "action_space (top e) = OtherSpace d" and "nn_sizes cfg \<noteq> []"
  shows "\<exists>a. Agent_init cfg e = Inr a \<and> action_head a = None
           \<and> choose_action a net observation = Inl AttributeError"
  using assms by (simp add: Agent_init_def choose_action_def Let_def)

lemma get_wrapper_None: "get_wrapper e name = None \<longleftrightarrow> \<not> has_wrapper e name"
  by (induction e) (simp_all add: has_wrapper_def)

lemma get_wrapper_Some:
  "get_wrapper e name = Some l \<Longrightarrow> l \<in> set (layers e) \<and> class_name l = name"
  by (induction e) (auto split: if_splits)

lemma paths_differ: "agent_path logdir n \<noteq> obs_moments_path logdir' n'"
  by (simp add: agent_path_def obs_moments_path_def)

lemma digit_cases: "d < 10 \<Longrightarrow> d \<in> {0, 1, 2, 3, 4, 5, 6, 7, 8, 9 :: nat}"
  by auto

lemma digit_val_nth: "d < 10 \<Longrightarrow> digit_val (''0123456789'' ! d) = d"
  using digit_cases [of d] by (auto simp: digit_val_def)

lemma digit_not_minus: "d < 10 \<Longrightarrow> ''0123456789'' ! d \<noteq> CHR ''-''"
  using digit_cases [of d] by auto

lemma undigits_digits: "undigits (digits n) = n"
proof (induction n rule: digits.induct)
  case (1 n)
  show ?case
  proof (cases "n < 10")
    case True
    then show ?thesis
      by (subst digits.simps) (simp add: undigits_def digit_val_nth)
  next
    case False
    then have "undigits (digits (n div 10)) = n div 10"
      using 1 by simp
    then show ?thesis
      using False
      by (subst digits.simps) (simp add: undigits_def digit_val_nth)
  qed
qed

lemma digits_inj:
  assumes "digits n = digits m"
  shows "n = m"
proof -
  have "undigits (digits n) = undigits (digits m)"
    by (simp only: assms)
  then show ?thesis
    by (simp only: undigits_digits)
qed

lemma hd_digits: "digits n \<noteq> [] \<and> hd (digits n) \<noteq> CHR ''-''"
proof (induction n rule: digits.induct)
  case (1 n)
  show ?case
  proof (cases "n < 10")
    case True
    then show ?thesis
      by (subst (1 2) digits.simps) (simp add: digit_not_minus)
  next
    case False
    then show ?thesis
      using 1 by (subst (1 2) digits.simps) simp
  qed
qed

lemma str_int_inj: "str_int i = str_int j \<Longrightarrow> i = j"
proof -
  assume e: "str_int i = str_int j"
  have neg: "CHR ''-'' # digits a \<noteq> digits b" for a b
    using hd_digits [of b] by (cases "digits b") auto
  show ?thesis
  proof (cases "i < 0")
    case True
    show ?thesis
    proof (cases "j < 0")
      case True
      with \<open>i < 0\<close> e have "nat (- i) = nat (- j)"
        by (simp add: str_int_def digits_inj)
      with True \<open>i < 0\<close> show ?thesis by simp
    next
      case False
      with True e neg [of "nat (- i)" "nat j"] show ?thesis
        by (simp add: str_int_def)
    qed
  next
    case False
    show ?thesis
    proof (cases "j < 0")
      case True
      with False e neg [of "nat (- j)" "nat i"] show ?thesis
        by (simp add: str_int_def)
    next
      case False
      with \<open>\<not> i < 0\<close> e have "nat i = nat j"
        by (simp add: str_int_def digits_inj)
      with False \<open>\<not> i < 0\<close> show ?thesis by simp
    qed
  qed
qed

lemma paths_keyed:
  "agent_path logdir n = agent_path logdir m \<longleftrightarrow> n = m"
  "obs_moments_path logdir n = obs_moments_path logdir m \<longleftrightarrow> n = m"
  by (auto simp: agent_path_def obs_moments_path_def dest: str_int_inj)

lemma checkpoint_writes:
  assumes "well_typed (env a)"
  shows "\<exists>files'. checkpoint a params logdir num_iter files = (files', None)
     \<and> files' (agent_path logdir num_iter) = Some (StateDict params (total_timestep a))
     \<and> (has_wrapper (env a) ''VecStandardizeObservation'' \<longrightarrow>
          (\<exists>obs_env m v. get_wrapper (env a) ''VecStandardizeObservation'' = Some obs_env
             \<and> moments obs_env = Some (m, v)
             \<and> files' (obs_moments_path logdir num_iter) = Some (Pickle m v)))
     \<and> (\<not> has_wrapper (env a) ''VecStandardizeObservation'' \<longrightarrow>
          files' (obs_moments_path logdir num_iter) = files (obs_moments_path logdir num_iter))
     \<and> (\<forall>f. f \<noteq> agent_path logdir num_iter \<and> f \<noteq> obs_moments_path logdir num_iter
            \<longrightarrow> files' f = files f)"
proof (cases "get_wrapper (env a) ''VecStandardizeObservation''")
  case None
  then have "\<not> has_wrapper (env a) ''VecStandardizeObservation''"
    by (simp add: get_wrapper_None)
  with None show ?thesis
    using paths_differ [of logdir num_iter logdir num_iter]
    by (simp add: checkpoint_def save_def)
next
  case (Some obs_env)
  then have h: "has_wrapper (env a) ''VecStandardizeObservation''"
    using get_wrapper_None [of "env a" "''VecStandardizeObservation''"] by simp
  from get_wrapper_Some [OF Some] assms have "moments obs_env \<noteq> None"
    by (auto simp: well_typed_def list_all_iff)
  then obtain m v where mv: "moments obs_env = Some (m, v)" by auto
  show ?thesis
    using Some h mv paths_differ [of logdir num_iter logdir num_iter]
    by (simp add: checkpoint_def save_def pickle_dump_def)
qed

lemma ex_init: "Agent_init ex_config ex_env = Inr ex_agent"
  by (simp add: Agent_init_def ex_config_def ex_env_def ex_agent_def)

lemma ex_vtrace:
  "vtrace [- (1 / 2), - (1 / 2)] [- (1 / 2), - (1 / 2)] (99 / 100) [1, 1] [1 / 2, 1 / 2] (1 / 2)
     [False, True] 1 1 = Inr ([199 / 100, 1], [149 / 100, 1 / 2])"
  by (simp add: vtrace_def vtrace_of_def well_formed_def horizon_def vtarget.simps advantage_def
      delta_def V_next_def cont_def cw_def rho_def ratio_def upt_rec)

lemma ex_metrics: "metrics (ex_agent\<lparr>total_timestep := t\<rparr>) ex_net [ex_traj] = Inr ex_batch"
  by (simp add: metrics_unfold behavior_logprobs_of_def batch_observations_def concatenate_def
      choose_action_def ex_agent_def ex_net_def ex_traj_def ex_config_def make_row_def
      enumerate_eq_zip upt_rec squeeze_def len_traj_def ex_vtrace ex_batch_def)

lemma ex_loss: "loss ex_config ex_batch = Fin (44401 / 40000)"
  by (simp add: loss_def loss_terms_def policy_loss_def value_loss_def entropy_loss_def
      ex_batch_def ex_config_def mean_def fsum_def power2_eq_square)

lemma ex_means:
  "mean (policy_loss ex_batch) = Fin (199 / 400)"
  "mean (entropy_loss ex_batch) = Fin (- (1 / 2))"
  "mean (value_loss ex_batch) = Fin (24701 / 20000)"
  by (simp_all add: policy_loss_def value_loss_def entropy_loss_def
      ex_batch_def mean_def fsum_def power2_eq_square)

lemma ex_learn:
  "learn (ex_agent\<lparr>total_timestep := t\<rparr>) ex_net [ex_traj]
     = Inr (ex_agent\<lparr>total_timestep := t + 2\<rparr>, ex_events t, ex_report)"
proof -
  have c: "config (ex_agent\<lparr>total_timestep := t\<rparr>) = ex_config"
    by (simp add: ex_agent_def)
  have s: "scheduler_events (ex_agent\<lparr>total_timestep := t\<rparr>) = Inr [SchedulerStep t]"
    by (simp add: scheduler_events_def ex_agent_def ex_config_def)
  have n: "sum_list (map len_traj [ex_traj]) = 2"
    by (simp add: len_traj_def ex_traj_def)
  have m: "agent_max_grad_norm ex_config = 1 / 2"
    by (simp add: ex_config_def)
  show ?thesis
    unfolding learn_def ex_metrics c s n
    by (simp add: ex_loss ex_means ex_events_def ex_report_def m)
qed

lemma ex_agent_upd: "ex_agent\<lparr>total_timestep := 0\<rparr> = ex_agent"
  by (simp add: ex_agent_def)

text \<open>
  Claim C1. For the trajectory of two steps with discount 0.99, behaviour and target
  log-probabilities 0, rewards 1 and 1, value estimates 0.5 and 0.5, bootstrap value 0,
  termination flags False and True and both clip thresholds 1, the estimator returns the
  value targets 1.99 and 1 (and the advantages 1.49 and 0.5). The numbers are real
  numbers, so the equality is exact.
\<close>

theorem vtrace_scenario:
  "vtrace [0, 0] [0, 0] (99 / 100) [1, 1] [1 / 2, 1 / 2] 0 [False, True] 1 1
     = Inr ([199 / 100, 1], [149 / 100, 1 / 2])"
  by (simp add: vtrace_def vtrace_of_def well_formed_def horizon_def vtarget.simps advantage_def
      delta_def V_next_def cont_def cw_def rho_def ratio_def upt_rec)

theorem learn_loss_witness:
  "\<exists>b A. metrics (ex_agent\<lparr>total_timestep := 0\<rparr>) ex_net [ex_traj] = Inr b
     \<and> b_As b = map Fin A
     \<and> ex_events 0 ! 1 = Backward (out_loss ex_report)
     \<and> out_loss ex_report =
         Fin ((\<Sum>i\<in>{..<sum_list (map len_traj [ex_traj])}.
                 - (b_logprobs b ! i) * A ! i
                 + agent_value_coef (config (ex_agent\<lparr>total_timestep := 0\<rparr>))
                   * (b_Vs b ! i - b_vs b ! i)\<^sup>2
                 + agent_entropy_coef (config (ex_agent\<lparr>total_timestep := 0\<rparr>))
                   * - (b_entropies b ! i))
              / real (sum_list (map len_traj [ex_traj])))"
  using learn_loss [OF ex_learn [of 0]] by blast




text \<open>
  Claim C7, amended. The counter is 0 after the construction. A call of \<^verbatim>\<open>learn\<close>
  that returns adds the sum of the lengths of the trajectories to it in 64-bit
  arithmetic: exactly that sum when the new total is below \<open>2\<^sup>6\<^sup>3\<close>.
  \<^verbatim>\<open>choose_action\<close> and \<^verbatim>\<open>checkpoint\<close> leave it unchanged, and along a run of
  operations whose total stays below \<open>2\<^sup>6\<^sup>3\<close> the counter never decreases.
\<close>

theorem total_timestep_counter:
  "(Agent_init cfg e = Inr a0 \<longrightarrow> total_timestep a0 = 0)
   \<and> (learn a net D = Inr (a', events, out) \<longrightarrow>
        total_timestep a' = total_timestep a + of_nat (sum_list (map len_traj D))
        \<and> (sint (total_timestep a) + int (sum_list (map len_traj D)) < 2 ^ 63 \<longrightarrow>
             sint (total_timestep a')
               = sint (total_timestep a) + int (sum_list (map len_traj D))))
   \<and> total_timestep (fst (step (a, files) (ChooseAction net observation))) = total_timestep a
   \<and> total_timestep (fst (step (a, files) (Checkpoint params logdir num_iter)))
       = total_timestep a
   \<and> (sint (total_timestep a) + int (learned a (ops @ rest)) < 2 ^ 63 \<longrightarrow>
        sint (total_timestep (fst (run (a, files) ops)))
          \<le> sint (total_timestep (fst (run (a, files) (ops @ rest)))))"
proof -
  have 1: "Agent_init cfg e = Inr a0 \<longrightarrow> total_timestep a0 = 0"
    by (auto simp: Agent_init_def Let_def split: if_splits)
  have 2: "learn a net D = Inr (a', events, out) \<longrightarrow>
        total_timestep a' = total_timestep a + of_nat (sum_list (map len_traj D))
        \<and> (sint (total_timestep a) + int (sum_list (map len_traj D)) < 2 ^ 63 \<longrightarrow>
             sint (total_timestep a')
               = sint (total_timestep a) + int (sum_list (map len_traj D)))"
    using learn_counter [of a net D a' events out] sint_add_of_nat [of "total_timestep a"]
    by simp
  have 3: "total_timestep (fst (step (a, files) (ChooseAction net observation))) = total_timestep a"
    "total_timestep (fst (step (a, files) (Checkpoint params logdir num_iter))) = total_timestep a"
    by simp_all
  have 4: "sint (total_timestep a) + int (learned a (ops @ rest)) < 2 ^ 63 \<longrightarrow>
        sint (total_timestep (fst (run (a, files) ops)))
          \<le> sint (total_timestep (fst (run (a, files) (ops @ rest))))"
    using run_monotone [of a ops rest files] by blast
  show ?thesis
    using 1 2 3 4 by blast
qed

lemma ex_run:
  "run (ex_agent, Map.empty) [Learn ex_net [ex_traj], Checkpoint [] ''logs'' 1]
     = (ex_agent\<lparr>total_timestep := 2\<rparr>,
        fst (checkpoint (ex_agent\<lparr>total_timestep := 2\<rparr>) [] ''logs'' 1 Map.empty))"
  using ex_learn [of 0] by (simp add: run_def ex_agent_upd)

lemma ex_learned: "learned ex_agent [Learn ex_net [ex_traj], Checkpoint [] ''logs'' 1] = 2"
  using ex_learn [of 0] by (simp add: ex_agent_upd len_traj_def ex_traj_def)

theorem total_timestep_counter_witness:
  "Agent_init ex_config ex_env = Inr ex_agent \<and> total_timestep ex_agent = 0
   \<and> learn (ex_agent\<lparr>total_timestep := 0\<rparr>) ex_net [ex_traj]
        = Inr (ex_agent\<lparr>total_timestep := 0 + 2\<rparr>, ex_events 0, ex_report)
   \<and> sint (total_timestep (ex_agent\<lparr>total_timestep := 0\<rparr>))
        + int (sum_list (map len_traj [ex_traj])) < 2 ^ 63
   \<and> sint (total_timestep (ex_agent\<lparr>total_timestep := 0 + 2\<rparr>))
        = sint (total_timestep (ex_agent\<lparr>total_timestep := 0\<rparr>))
          + int (sum_list (map len_traj [ex_traj]))
   \<and> sint (total_timestep ex_agent)
        + int (learned ex_agent ([] @ [Learn ex_net [ex_traj], Checkpoint [] ''logs'' 1])) < 2 ^ 63
   \<and> sint (total_timestep (fst (run (ex_agent, Map.empty) [])))
        \<le> sint (total_timestep (fst (run (ex_agent, Map.empty)
              ([] @ [Learn ex_net [ex_traj], Checkpoint [] ''logs'' 1]))))"
proof -
  have i: "Agent_init ex_config ex_env = Inr ex_agent" by (rule ex_init)
  have l: "learn (ex_agent\<lparr>total_timestep := 0\<rparr>) ex_net [ex_traj]
        = Inr (ex_agent\<lparr>total_timestep := 0 + 2\<rparr>, ex_events 0, ex_report)"
    by (rule ex_learn)
  have b: "sint (total_timestep (ex_agent\<lparr>total_timestep := 0\<rparr>))
        + int (sum_list (map len_traj [ex_traj])) < 2 ^ 63"
    by (simp add: len_traj_def ex_traj_def)
  have r: "sint (total_timestep ex_agent)
        + int (learned ex_agent ([] @ [Learn ex_net [ex_traj], Checkpoint [] ''logs'' 1])) < 2 ^ 63"
    by (simp only: append_Nil ex_learned) (simp add: ex_agent_def)
  from total_timestep_counter [of ex_config ex_env ex_agent "ex_agent\<lparr>total_timestep := 0\<rparr>"
      ex_net "[ex_traj]" "ex_agent\<lparr>total_timestep := 0 + 2\<rparr>" "ex_events 0" ex_report]
    i l b
  have p: "total_timestep ex_agent = 0"
    "sint (total_timestep (ex_agent\<lparr>total_timestep := 0 + 2\<rparr>))
        = sint (total_timestep (ex_agent\<lparr>total_timestep := 0\<rparr>))
          + int (sum_list (map len_traj [ex_traj]))"
    by blast+
  from total_timestep_counter [where a = ex_agent and files = Map.empty and ops = "[]"
      and rest = "[Learn ex_net [ex_traj], Checkpoint [] ''logs'' 1]"] r
  have q: "sint (total_timestep (fst (run (ex_agent, Map.empty) [])))
        \<le> sint (total_timestep (fst (run (ex_agent, Map.empty)
              ([] @ [Learn ex_net [ex_traj], Checkpoint [] ''logs'' 1]))))"
    by blast
  show ?thesis
    using i l b r p q by blast
qed

text \<open>
  The claim C7 as it is stated fails at the end of the 64-bit range: from the counter
  \<open>2\<^sup>6\<^sup>3 - 1\<close>, learning on a batch of two timesteps gives the counter
  \<open>- 2\<^sup>6\<^sup>3 + 1\<close>, which is smaller and is not the old counter plus two.
\<close>

theorem total_timestep_wraps:
  "learn (ex_agent\<lparr>total_timestep := 2 ^ 63 - 1\<rparr>) ex_net [ex_traj]
     = Inr (ex_agent\<lparr>total_timestep := 2 ^ 63 - 1 + 2\<rparr>, ex_events (2 ^ 63 - 1), ex_report)
   \<and> sum_list (map len_traj [ex_traj]) = 2
   \<and> sint (total_timestep (ex_agent\<lparr>total_timestep := 2 ^ 63 - 1\<rparr>)) = 2 ^ 63 - 1
   \<and> sint (total_timestep (ex_agent\<lparr>total_timestep := 2 ^ 63 - 1 + 2\<rparr>)) = - (2 ^ 63) + 1"
proof -
  have 1: "sum_list (map len_traj [ex_traj]) = 2"
    by (simp add: len_traj_def ex_traj_def)
  have 2: "sint (total_timestep (ex_agent\<lparr>total_timestep := 2 ^ 63 - 1\<rparr>)) = 2 ^ 63 - 1"
    "sint (total_timestep (ex_agent\<lparr>total_timestep := 2 ^ 63 - 1 + 2\<rparr>)) = - (2 ^ 63) + 1"
    by simp_all
  show ?thesis
    using ex_learn [of "2 ^ 63 - 1"] 1 2 by blast
qed

text \<open>
  Claim C9. In a call of \<^verbatim>\<open>learn\<close> that returns, with the scheduler enabled, the
  scheduler is stepped once, after the optimizer, with the counter as it stood before
  the call; the counter of the agent after the call has the timesteps of the batch
  added.
\<close>

theorem scheduler_step_before_increment:
  assumes "learn a net D = Inr (a', events, out)" and "agent_use_lr_scheduler (config a)"
  shows "\<exists>l. events = [ZeroGrad, Backward l, ClipGradNorm (agent_max_grad_norm (config a)),
                        OptimizerStep, SchedulerStep (total_timestep a)]
           \<and> total_timestep a' = total_timestep a + of_nat (sum_list (map len_traj D))"
  using learn_events [OF assms] learn_counter [OF assms(1)] by blast

theorem scheduler_step_before_increment_witness:
  "\<exists>l. ex_events 5 = [ZeroGrad, Backward l,
            ClipGradNorm (agent_max_grad_norm (config (ex_agent\<lparr>total_timestep := 5\<rparr>))),
            OptimizerStep, SchedulerStep (total_timestep (ex_agent\<lparr>total_timestep := 5\<rparr>))]
        \<and> total_timestep (ex_agent\<lparr>total_timestep := 5 + 2\<rparr>)
            = total_timestep (ex_agent\<lparr>total_timestep := 5\<rparr>)
              + of_nat (sum_list (map len_traj [ex_traj]))"
proof -
  have u: "agent_use_lr_scheduler (config (ex_agent\<lparr>total_timestep := 5\<rparr>))"
    by (simp add: ex_agent_def ex_config_def)
  show ?thesis
    by (rule scheduler_step_before_increment [OF ex_learn [of 5] u])
qed

theorem init_unknown_action_space_witness:
  "\<exists>a. Agent_init ex_config ex_other_env = Inr a \<and> action_head a = None
       \<and> choose_action a ex_net [[0, 0, 0, 0]] = Inl AttributeError"
proof -
  have s: "action_space (top ex_other_env) = OtherSpace 3"
    by (simp add: ex_other_env_def)
  have n: "nn_sizes ex_config \<noteq> []"
    by (simp add: ex_config_def)
  show ?thesis
    by (rule init_unknown_action_space [OF s n])
qed


text \<open>
  Claim C8. A call of \<^verbatim>\<open>checkpoint\<close> with the iteration number \<open>n\<close>, on a
  well-typed environment, raises nothing and writes the parameters of the model to the
  file \<^verbatim>\<open>agent_n.pth\<close>. When the environment stack has a wrapper of the class
  \<^verbatim>\<open>VecStandardizeObservation\<close> it writes the mean and the variance of that wrapper to
  the file \<^verbatim>\<open>obs_moments_n.pth\<close>; when it has none, that file is left as it was. No
  other file changes. The two file names determine the iteration number: checkpoints of
  different iterations are different files.
\<close>

theorem checkpoint_files:
  assumes "well_typed (env a)"
  shows "(\<exists>files'. checkpoint a params logdir num_iter files = (files', None)
     \<and> files' (agent_path logdir num_iter) = Some (StateDict params (total_timestep a))
     \<and> (has_wrapper (env a) ''VecStandardizeObservation'' \<longrightarrow>
          (\<exists>obs_env m v. get_wrapper (env a) ''VecStandardizeObservation'' = Some obs_env
             \<and> moments obs_env = Some (m, v)
             \<and> files' (obs_moments_path logdir num_iter) = Some (Pickle m v)))
     \<and> (\<not> has_wrapper (env a) ''VecStandardizeObservation'' \<longrightarrow>
          files' (obs_moments_path logdir num_iter) = files (obs_moments_path logdir num_iter))
     \<and> (\<forall>f. f \<noteq> agent_path logdir num_iter \<and> f \<noteq> obs_moments_path logdir num_iter
            \<longrightarrow> files' f = files f))
     \<and> (agent_path logdir n' = agent_path logdir num_iter \<longleftrightarrow> n' = num_iter)
     \<and> (obs_moments_path logdir n' = obs_moments_path logdir num_iter \<longleftrightarrow> n' = num_iter)"
  by (rule conjI [OF checkpoint_writes [OF assms]
        conjI [OF paths_keyed(1) paths_keyed(2)]])

theorem checkpoint_files_witness:
  "well_typed (env ex_agent)
   \<and> has_wrapper (env ex_agent) ''VecStandardizeObservation''
   \<and> (\<exists>files'. checkpoint ex_agent [] ''logs'' 3 Map.empty = (files', None)
        \<and> files' (agent_path ''logs'' 3) = Some (StateDict [] (total_timestep ex_agent))
        \<and> (\<exists>obs_env m v. get_wrapper (env ex_agent) ''VecStandardizeObservation'' = Some obs_env
             \<and> moments obs_env = Some (m, v)
             \<and> files' (obs_moments_path ''logs'' 3) = Some (Pickle m v)))
   \<and> well_typed (env ex_other_agent)
   \<and> \<not> has_wrapper (env ex_other_agent) ''VecStandardizeObservation''
   \<and> (\<exists>files'. checkpoint ex_other_agent [] ''logs'' 3 Map.empty = (files', None)
        \<and> files' (obs_moments_path ''logs'' 3) = Map.empty (obs_moments_path ''logs'' 3))"
proof -
  have w: "well_typed (env ex_agent)"
    and h: "has_wrapper (env ex_agent) ''VecStandardizeObservation''"
    by (simp_all add: well_typed_def has_wrapper_def ex_agent_def ex_env_def)
  have w': "well_typed (env ex_other_agent)"
    and h': "\<not> has_wrapper (env ex_other_agent) ''VecStandardizeObservation''"
    by (simp_all add: well_typed_def has_wrapper_def ex_other_agent_def ex_other_env_def)
  from checkpoint_files [OF w, of "[]" "''logs''" 3 Map.empty 3, THEN conjunct1] h
  have 1: "\<exists>files'. checkpoint ex_agent [] ''logs'' 3 Map.empty = (files', None)
        \<and> files' (agent_path ''logs'' 3) = Some (StateDict [] (total_timestep ex_agent))
        \<and> (\<exists>obs_env m v. get_wrapper (env ex_agent) ''VecStandardizeObservation'' = Some obs_env
             \<and> moments obs_env = Some (m, v)
             \<and> files' (obs_moments_path ''logs'' 3) = Some (Pickle m v))"
    by blast
  from checkpoint_files [OF w', of "[]" "''logs''" 3 Map.empty 3, THEN conjunct1] h'
  have 2: "\<exists>files'. checkpoint ex_other_agent [] ''logs'' 3 Map.empty = (files', None)
        \<and> files' (obs_moments_path ''logs'' 3) = Map.empty (obs_moments_path ''logs'' 3)"
    by blast
  show ?thesis
    using w h w' h' 1 2 by blast
qed

end
